theory Spec2Isabelle
  imports Main
begin

section \<open>Data model of the authentication API (api/auth.ts)\<close>

text \<open>
  The payload types of the remote authority. The store never inspects a profile or a
  settings object; it only stores what a response carries. Field names follow the
  TypeScript interfaces, with a prefix where two interfaces share a name (record fields
  are global constants). A \<^verbatim>\<open>T | null\<close> or optional field is an option.
\<close>

record User =
  u_id :: string
  u_username :: string
  u_email :: "string option"
  u_avatar_url :: "string option"
  u_role :: string
  u_oauth_provider :: "string option"
  u_is_active :: "bool option"
  u_created_at :: string
  u_updated_at :: "string option"

record UserSettings =
  s_id :: string
  s_user_id :: string
  google_api_base :: "string option"
  mineru_api_base :: "string option"
  image_caption_model :: "string option"
  max_description_workers :: "int option"
  max_image_workers :: "int option"
  has_google_api_key :: bool
  has_mineru_token :: bool
  s_created_at :: string
  s_updated_at :: string

datatype source = From_user | From_system

record secret_entry =
  is_set :: bool
  secret_source :: source

record 'a value_entry =
  entry_value :: 'a
  entry_source :: source

record EffectiveConfig =
  ec_google_api_key :: secret_entry
  ec_google_api_base :: "string value_entry"
  ec_mineru_token :: secret_entry
  ec_mineru_api_base :: "string value_entry"
  ec_image_caption_model :: "string value_entry"
  ec_max_description_workers :: "int value_entry"
  ec_max_image_workers :: "int value_entry"

record UpdateSettingsRequest =
  req_google_api_key :: "string option"
  req_google_api_base :: "string option"
  req_mineru_token :: "string option"
  req_mineru_api_base :: "string option"
  req_image_caption_model :: "string option"
  req_max_description_workers :: "int option"
  req_max_image_workers :: "int option"

text \<open>\<^verbatim>\<open>{ user: User } & AuthTokens\<close>, the answer to login and register.\<close>

record AuthResponse =
  auth_user :: User
  access_token :: string
  refresh_token :: string
  token_type :: string

text \<open>\<^verbatim>\<open>{ access_token; token_type }\<close>, the answer to refresh.\<close>

record RefreshResponse =
  new_access_token :: string
  new_token_type :: string

text \<open>\<^verbatim>\<open>{ settings; effective_config }\<close>, the answer of the three settings endpoints.\<close>

record SettingsResponse =
  settings_of :: UserSettings
  effective_config :: EffectiveConfig

text \<open>
  A rejected request. The store reads two things off the caught error:
  \<^verbatim>\<open>error.response?.status\<close> and \<^verbatim>\<open>error.response?.data?.error\<close>; either is
  undefined when the part of the chain before it is missing (a transport error has no
  response at all).
\<close>

datatype api_error = Api_error (status: "nat option") (data_error: "string option")

type_synonym 'a response = "api_error + 'a"

text \<open>The requests the store sends, one constructor per function of authApi and userApi it calls.\<close>

datatype request =
    PostLogin string string bool
  | PostRegister string string string
  | PostLogout
  | PostRefresh string
  | GetMe
  | GetSettings
  | PutSettings UpdateSettingsRequest
  | DeleteSetting string

section \<open>The store (store/useAuthStore.ts)\<close>

record AuthState =
  user :: "User option"
  accessToken :: "string option"
  refreshToken :: "string option"
  isAuthenticated :: bool
  isLoading :: bool
  error :: "string option"
  settings :: "UserSettings option"
  effectiveConfig :: "EffectiveConfig option"

definition initial_state :: AuthState where
  "initial_state =
     \<lparr>user = None, accessToken = None, refreshToken = None, isAuthenticated = False,
      isLoading = False, error = None, settings = None, effectiveConfig = None\<rparr>"

text \<open>
  What an action leaves behind besides the new store: the requests it sent, in order, and
  a mark for each reset of the session. A request is logged with the access token and the
  authenticated flag the store holds at the moment the request is sent; the two are
  observations for the theorems and no action reads them back.
\<close>

datatype event = Call request "string option" bool | ClearSession

definition call :: "AuthState \<Rightarrow> request \<Rightarrow> event" where
  "call s r = Call r (accessToken s) (isAuthenticated s)"

text \<open>How the promise of an action settles: it resolves, or rejects with \<^verbatim>\<open>new Error(message)\<close>.\<close>

datatype outcome = Resolved | Rejected string

record 'a run =
  final :: AuthState
  events :: "event list"
  result :: 'a

text \<open>JavaScript truthiness of a \<^verbatim>\<open>string | null\<close>: null and the empty string are falsy.\<close>

definition falsy :: "string option \<Rightarrow> bool" where
  "falsy t = (case t of None \<Rightarrow> True | Some v \<Rightarrow> v = [])"

text \<open>\<^verbatim>\<open>error.response?.data?.error || fallback\<close>.\<close>

definition message_or :: "api_error \<Rightarrow> string \<Rightarrow> string" where
  "message_or e fallback =
     (case data_error e of
        None \<Rightarrow> fallback
      | Some m \<Rightarrow> if m = [] then fallback else m)"

text \<open>
  The reset written out twice in the source, in logout and in the catch of
  refreshAccessToken: six fields; isLoading and error are not among them.
\<close>

definition clearSession :: "AuthState \<Rightarrow> AuthState" where
  "clearSession s =
     s\<lparr>user := None, accessToken := None, refreshToken := None, isAuthenticated := False,
       settings := None, effectiveConfig := None\<rparr>"

subsection \<open>Settings actions\<close>

text \<open>
  fetchSettings after its await: the answer replaces both fields, an error is written to
  the console and nothing else happens.
\<close>

definition fetchSettings_resume :: "AuthState \<Rightarrow> SettingsResponse response \<Rightarrow> AuthState" where
  "fetchSettings_resume s r =
     (case r of
        Inr resp \<Rightarrow> s\<lparr>settings := Some (settings_of resp),
                      effectiveConfig := Some (effective_config resp)\<rparr>
      | Inl e \<Rightarrow> s)"

definition fetchSettings :: "AuthState \<Rightarrow> SettingsResponse response \<Rightarrow> outcome run" where
  "fetchSettings s r =
     \<lparr>final = fetchSettings_resume s r, events = [call s GetSettings], result = Resolved\<rparr>"

definition updateSettings ::
  "AuthState \<Rightarrow> UpdateSettingsRequest \<Rightarrow> SettingsResponse response \<Rightarrow> outcome run" where
  "updateSettings s data r =
     (case r of
        Inr resp \<Rightarrow>
          \<lparr>final = s\<lparr>settings := Some (settings_of resp),
                       effectiveConfig := Some (effective_config resp)\<rparr>,
           events = [call s (PutSettings data)], result = Resolved\<rparr>
      | Inl e \<Rightarrow>
          (let message = message_or e ''Failed to update settings'' in
           \<lparr>final = s\<lparr>error := Some message\<rparr>,
            events = [call s (PutSettings data)], result = Rejected message\<rparr>))"

definition resetSetting :: "AuthState \<Rightarrow> string \<Rightarrow> SettingsResponse response \<Rightarrow> outcome run" where
  "resetSetting s key r =
     (case r of
        Inr resp \<Rightarrow>
          \<lparr>final = s\<lparr>settings := Some (settings_of resp),
                       effectiveConfig := Some (effective_config resp)\<rparr>,
           events = [call s (DeleteSetting key)], result = Resolved\<rparr>
      | Inl e \<Rightarrow>
          (let message = message_or e ''Failed to reset setting'' in
           \<lparr>final = s\<lparr>error := Some message\<rparr>,
            events = [call s (DeleteSetting key)], result = Rejected message\<rparr>))"

subsection \<open>Session actions\<close>

text \<open>
  login and register call fetchSettings without awaiting it. The model runs that call to
  its end at once, with the answer \<open>rs\<close> to its request; the call writes settings and
  effectiveConfig only.
\<close>

definition login ::
  "AuthState \<Rightarrow> string \<Rightarrow> string \<Rightarrow> bool \<Rightarrow> AuthResponse response \<Rightarrow>
   SettingsResponse response \<Rightarrow> outcome run" where
  "login s email password rememberMe r rs =
     (let s1 = s\<lparr>isLoading := True, error := None\<rparr> in
      case r of
        Inr resp \<Rightarrow>
          (let s2 = s1\<lparr>user := Some (auth_user resp),
                        accessToken := Some (access_token resp),
                        refreshToken := Some (refresh_token resp),
                        isAuthenticated := True, isLoading := False\<rparr>;
               fs = fetchSettings s2 rs
           in \<lparr>final = final fs,
               events = call s1 (PostLogin email password rememberMe) # events fs,
               result = Resolved\<rparr>)
      | Inl e \<Rightarrow>
          (let message = message_or e ''Login failed'' in
           \<lparr>final = s1\<lparr>error := Some message, isLoading := False\<rparr>,
            events = [call s1 (PostLogin email password rememberMe)],
            result = Rejected message\<rparr>))"

definition register ::
  "AuthState \<Rightarrow> string \<Rightarrow> string \<Rightarrow> string \<Rightarrow> AuthResponse response \<Rightarrow>
   SettingsResponse response \<Rightarrow> outcome run" where
  "register s username email password r rs =
     (let s1 = s\<lparr>isLoading := True, error := None\<rparr> in
      case r of
        Inr resp \<Rightarrow>
          (let s2 = s1\<lparr>user := Some (auth_user resp),
                        accessToken := Some (access_token resp),
                        refreshToken := Some (refresh_token resp),
                        isAuthenticated := True, isLoading := False\<rparr>;
               fs = fetchSettings s2 rs
           in \<lparr>final = final fs,
               events = call s1 (PostRegister username email password) # events fs,
               result = Resolved\<rparr>)
      | Inl e \<Rightarrow>
          (let message = message_or e ''Registration failed'' in
           \<lparr>final = s1\<lparr>error := Some message, isLoading := False\<rparr>,
            events = [call s1 (PostRegister username email password)],
            result = Rejected message\<rparr>))"

text \<open>logout: the answer of the remote call is awaited and, if it is an error, dropped.\<close>

definition logout :: "AuthState \<Rightarrow> unit response \<Rightarrow> outcome run" where
  "logout s r =
     (let s1 = (case r of Inr ok \<Rightarrow> s | Inl e \<Rightarrow> s) in
      \<lparr>final = clearSession s1, events = [call s PostLogout, ClearSession],
       result = Resolved\<rparr>)"

text \<open>
  refreshAccessToken in two halves, cut at its await. The first half reads the refresh
  token and either returns false at once (None) or sends the token (Some). The second
  half runs when the answer arrives, on the store as it is then.
\<close>

definition refresh_begin :: "AuthState \<Rightarrow> string option" where
  "refresh_begin s = (if falsy (refreshToken s) then None else refreshToken s)"

definition refresh_resume :: "AuthState \<Rightarrow> RefreshResponse response \<Rightarrow> bool run" where
  "refresh_resume s r =
     (case r of
        Inr resp \<Rightarrow>
          \<lparr>final = s\<lparr>accessToken := Some (new_access_token resp)\<rparr>, events = [],
           result = True\<rparr>
      | Inl e \<Rightarrow> \<lparr>final = clearSession s, events = [ClearSession], result = False\<rparr>)"

definition refreshAccessToken :: "AuthState \<Rightarrow> RefreshResponse response \<Rightarrow> bool run" where
  "refreshAccessToken s r =
     (case refresh_begin s of
        None \<Rightarrow> \<lparr>final = s, events = [], result = False\<rparr>
      | Some rt \<Rightarrow>
          (let k = refresh_resume s r in
           \<lparr>final = final k, events = call s (PostRefresh rt) # events k,
            result = result k\<rparr>))"

text \<open>
  fetchCurrentUser. \<open>me1\<close> answers the first GET /api/auth/me, \<open>rf\<close> the refresh
  request and \<open>me2\<close> the second GET; an answer is read only if its request is sent.
\<close>

definition fetchCurrentUser ::
  "AuthState \<Rightarrow> User response \<Rightarrow> RefreshResponse response \<Rightarrow> User response \<Rightarrow> outcome run" where
  "fetchCurrentUser s me1 rf me2 =
     (if falsy (accessToken s) then \<lparr>final = s, events = [], result = Resolved\<rparr>
      else
        (let s1 = s\<lparr>isLoading := True\<rparr> in
         case me1 of
           Inr u \<Rightarrow>
             \<lparr>final = s1\<lparr>user := Some u, isAuthenticated := True, isLoading := False\<rparr>,
              events = [call s1 GetMe], result = Resolved\<rparr>
         | Inl e \<Rightarrow>
             if status e = Some 401 then
               (let rr = refreshAccessToken s1 rf in
                if result rr then
                  (case me2 of
                     Inr u \<Rightarrow>
                       \<lparr>final = (final rr)\<lparr>user := Some u, isAuthenticated := True,
                                           isLoading := False\<rparr>,
                        events = call s1 GetMe # events rr @ [call (final rr) GetMe],
                        result = Resolved\<rparr>
                   | Inl e2 \<Rightarrow>
                       \<lparr>final = (final rr)\<lparr>isLoading := False\<rparr>,
                        events = call s1 GetMe # events rr @ [call (final rr) GetMe],
                        result = Resolved\<rparr>)
                else
                  \<lparr>final = (final rr)\<lparr>isLoading := False\<rparr>,
                   events = call s1 GetMe # events rr, result = Resolved\<rparr>)
             else
               \<lparr>final = s1\<lparr>isLoading := False\<rparr>, events = [call s1 GetMe],
                result = Resolved\<rparr>))"

text \<open>setTokensFromOAuth awaits fetchCurrentUser and then calls fetchSettings, in every case.\<close>

definition setTokensFromOAuth ::
  "AuthState \<Rightarrow> string \<Rightarrow> string \<Rightarrow> User response \<Rightarrow> RefreshResponse response \<Rightarrow>
   User response \<Rightarrow> SettingsResponse response \<Rightarrow> outcome run" where
  "setTokensFromOAuth s at rt me1 rf me2 rs =
     (let s1 = s\<lparr>accessToken := Some at, refreshToken := Some rt, isAuthenticated := True\<rparr>;
          fc = fetchCurrentUser s1 me1 rf me2;
          fs = fetchSettings (final fc) rs
      in \<lparr>final = final fs, events = events fc @ events fs, result = Resolved\<rparr>)"

definition clearError :: "AuthState \<Rightarrow> AuthState" where
  "clearError s = s\<lparr>error := None\<rparr>"

definition setError :: "AuthState \<Rightarrow> string \<Rightarrow> AuthState" where
  "setError s e = s\<lparr>error := Some e\<rparr>"

subsection \<open>The components that call the store on their own\<close>



section \<open>Sequences of store actions\<close>

text \<open>
  One constructor per action of the store, carrying the arguments of the call and the
  answers of the remote authority to the requests the action may send. \<open>perform\<close> runs one
  action from its call to its end with nothing in between, so a fold of \<open>perform\<close> is a
  run of the store in which no two actions overlap. Runs in which they do overlap are
  the subject of the two sections after this one.
\<close>

datatype action =
    Login string string bool "AuthResponse response" "SettingsResponse response"
  | Register string string string "AuthResponse response" "SettingsResponse response"
  | Logout "unit response"
  | RefreshAccessToken "RefreshResponse response"
  | FetchCurrentUser "User response" "RefreshResponse response" "User response"
  | SetTokensFromOAuth string string "User response" "RefreshResponse response"
      "User response" "SettingsResponse response"
  | FetchSettings "SettingsResponse response"
  | UpdateSettings UpdateSettingsRequest "SettingsResponse response"
  | ResetSetting string "SettingsResponse response"
  | ClearError
  | SetError string

fun perform :: "AuthState \<Rightarrow> action \<Rightarrow> AuthState" where
  "perform s (Login email password rememberMe r rs) =
     final (login s email password rememberMe r rs)"
| "perform s (Register username email password r rs) =
     final (register s username email password r rs)"
| "perform s (Logout r) = final (logout s r)"
| "perform s (RefreshAccessToken r) = final (refreshAccessToken s r)"
| "perform s (FetchCurrentUser me1 rf me2) = final (fetchCurrentUser s me1 rf me2)"
| "perform s (SetTokensFromOAuth at rt me1 rf me2 rs) =
     final (setTokensFromOAuth s at rt me1 rf me2 rs)"
| "perform s (FetchSettings rs) = final (fetchSettings s rs)"
| "perform s (UpdateSettings data rs) = final (updateSettings s data rs)"
| "perform s (ResetSetting key rs) = final (resetSetting s key rs)"
| "perform s ClearError = clearError s"
| "perform s (SetError e) = setError s e"


section \<open>Calls of refreshAccessToken that overlap\<close>

text \<open>
  The event loop runs one piece of an async function at a time, from one await to the
  next. A call of refreshAccessToken has two pieces, \<open>refresh_begin\<close> (up to the request)
  and \<open>refresh_resume\<close> (from the answer on), and the pieces of several calls may
  alternate in any order that starts a call before it resumes. A world is the shared
  store, the state of every call, and the requests sent so far; a turn runs one piece of
  one call. Every caller of fetchCurrentUser that gets an unauthorized answer reaches
  \<open>Start\<close> through \<^verbatim>\<open>await get().refreshAccessToken()\<close>.
\<close>

datatype refresh_task = Not_started | Awaiting string | Finished bool

record world =
  store :: AuthState
  tasks :: "refresh_task list"
  wire :: "event list"

datatype turn = Start nat | Deliver nat "RefreshResponse response"

fun turn_step :: "world \<Rightarrow> turn \<Rightarrow> world" where
  "turn_step w (Start i) =
     (if i < length (tasks w) \<and> tasks w ! i = Not_started then
        (case refresh_begin (store w) of
           None \<Rightarrow> w\<lparr>tasks := (tasks w)[i := Finished False]\<rparr>
         | Some rt \<Rightarrow>
             w\<lparr>tasks := (tasks w)[i := Awaiting rt],
               wire := wire w @ [call (store w) (PostRefresh rt)]\<rparr>)
      else w)"
| "turn_step w (Deliver i r) =
     (if i < length (tasks w) then
        (case tasks w ! i of
           Awaiting rt \<Rightarrow>
             (let k = refresh_resume (store w) r in
              w\<lparr>store := final k, tasks := (tasks w)[i := Finished (result k)],
                wire := wire w @ events k\<rparr>)
         | Not_started \<Rightarrow> w
         | Finished b \<Rightarrow> w)
      else w)"

fun is_awaiting :: "refresh_task \<Rightarrow> bool" where
  "is_awaiting (Awaiting rt) = True"
| "is_awaiting Not_started = False"
| "is_awaiting (Finished b) = False"

fun is_refresh_call :: "event \<Rightarrow> bool" where
  "is_refresh_call (Call (PostRefresh rt) a b) = True"
| "is_refresh_call ev = False"

text \<open>The refresh exchanges in flight, and the refresh requests sent so far.\<close>

definition in_flight :: "world \<Rightarrow> nat" where
  "in_flight w = length (filter is_awaiting (tasks w))"

definition refresh_requests :: "world \<Rightarrow> nat" where
  "refresh_requests w = length (filter is_refresh_call (wire w))"

text \<open>\<open>n\<close> calls of refreshAccessToken about to start on the store \<open>s\<close>.\<close>

definition callers :: "AuthState \<Rightarrow> nat \<Rightarrow> world" where
  "callers s n = \<lparr>store = s, tasks = replicate n Not_started, wire = []\<rparr>"

section \<open>Calls of fetchCurrentUser and logout that overlap\<close>

text \<open>
  fetchCurrentUser and logout cut at their awaits. A piece runs on the store as it is
  when the piece starts, and gives the store it leaves, the requests it sends and the
  answer the call waits for next. fetchCurrentUser has four pieces: up to the first
  GET /api/auth/me; from its answer to the refresh request (the first half of
  refreshAccessToken) or to the end; from the refresh answer to the repeated GET or to
  the end; and from the answer to the repeated GET to the end. logout has two.
\<close>

datatype call_pc = Awaiting_me | Awaiting_refresh | Awaiting_retry | Awaiting_logout | Returned

record piece =
  store_after :: AuthState
  sent_by :: "event list"
  waits :: call_pc

definition fetchCurrentUser_begin :: "AuthState \<Rightarrow> piece" where
  "fetchCurrentUser_begin s =
     (if falsy (accessToken s) then \<lparr>store_after = s, sent_by = [], waits = Returned\<rparr>
      else
        (let s1 = s\<lparr>isLoading := True\<rparr> in
         \<lparr>store_after = s1, sent_by = [call s1 GetMe], waits = Awaiting_me\<rparr>))"

definition fetchCurrentUser_after_me :: "AuthState \<Rightarrow> User response \<Rightarrow> piece" where
  "fetchCurrentUser_after_me s me1 =
     (case me1 of
        Inr u \<Rightarrow>
          \<lparr>store_after = s\<lparr>user := Some u, isAuthenticated := True, isLoading := False\<rparr>,
           sent_by = [], waits = Returned\<rparr>
      | Inl e \<Rightarrow>
          if status e = Some 401 then
            (case refresh_begin s of
               None \<Rightarrow> \<lparr>store_after = s\<lparr>isLoading := False\<rparr>, sent_by = [], waits = Returned\<rparr>
             | Some rt \<Rightarrow>
                 \<lparr>store_after = s, sent_by = [call s (PostRefresh rt)],
                  waits = Awaiting_refresh\<rparr>)
          else \<lparr>store_after = s\<lparr>isLoading := False\<rparr>, sent_by = [], waits = Returned\<rparr>)"

definition fetchCurrentUser_after_refresh :: "AuthState \<Rightarrow> RefreshResponse response \<Rightarrow> piece" where
  "fetchCurrentUser_after_refresh s rf =
     (let k = refresh_resume s rf in
      if result k then
        \<lparr>store_after = final k, sent_by = events k @ [call (final k) GetMe],
         waits = Awaiting_retry\<rparr>
      else
        \<lparr>store_after = (final k)\<lparr>isLoading := False\<rparr>, sent_by = events k, waits = Returned\<rparr>)"

definition fetchCurrentUser_after_retry :: "AuthState \<Rightarrow> User response \<Rightarrow> piece" where
  "fetchCurrentUser_after_retry s me2 =
     (case me2 of
        Inr u \<Rightarrow>
          \<lparr>store_after = s\<lparr>user := Some u, isAuthenticated := True, isLoading := False\<rparr>,
           sent_by = [], waits = Returned\<rparr>
      | Inl e2 \<Rightarrow> \<lparr>store_after = s\<lparr>isLoading := False\<rparr>, sent_by = [], waits = Returned\<rparr>)"

definition logout_begin :: "AuthState \<Rightarrow> piece" where
  "logout_begin s = \<lparr>store_after = s, sent_by = [call s PostLogout], waits = Awaiting_logout\<rparr>"

definition logout_after :: "AuthState \<Rightarrow> unit response \<Rightarrow> piece" where
  "logout_after s r =
     (let s1 = (case r of Inr ok \<Rightarrow> s | Inl e \<Rightarrow> s) in
      \<lparr>store_after = clearSession s1, sent_by = [ClearSession], waits = Returned\<rparr>)"

text \<open>
  The shared store, the calls made so far with what each waits for, and the events so
  far. A turn of the event loop is a new call, which runs its first piece, or the
  arrival of an answer for call \<open>i\<close>, which runs that call's next piece; an answer for a
  call that does not wait for it changes nothing.
\<close>

record session_world =
  shared :: AuthState
  calls :: "call_pc list"
  sent :: "event list"

datatype session_turn =
    Call_fetchCurrentUser
  | Call_logout
  | Answer_me nat "User response"
  | Answer_refresh nat "RefreshResponse response"
  | Answer_logout nat "unit response"

definition enter :: "session_world \<Rightarrow> piece \<Rightarrow> session_world" where
  "enter w p =
     \<lparr>shared = store_after p, calls = calls w @ [waits p], sent = sent w @ sent_by p\<rparr>"

definition continue :: "session_world \<Rightarrow> nat \<Rightarrow> piece \<Rightarrow> session_world" where
  "continue w i p =
     \<lparr>shared = store_after p, calls = (calls w)[i := waits p], sent = sent w @ sent_by p\<rparr>"

fun session_step :: "session_world \<Rightarrow> session_turn \<Rightarrow> session_world" where
  "session_step w Call_fetchCurrentUser = enter w (fetchCurrentUser_begin (shared w))"
| "session_step w Call_logout = enter w (logout_begin (shared w))"
| "session_step w (Answer_me i r) =
     (if i < length (calls w) then
        (case calls w ! i of
           Awaiting_me \<Rightarrow> continue w i (fetchCurrentUser_after_me (shared w) r)
         | Awaiting_retry \<Rightarrow> continue w i (fetchCurrentUser_after_retry (shared w) r)
         | Awaiting_refresh \<Rightarrow> w
         | Awaiting_logout \<Rightarrow> w
         | Returned \<Rightarrow> w)
      else w)"
| "session_step w (Answer_refresh i r) =
     (if i < length (calls w) then
        (case calls w ! i of
           Awaiting_refresh \<Rightarrow> continue w i (fetchCurrentUser_after_refresh (shared w) r)
         | Awaiting_me \<Rightarrow> w
         | Awaiting_retry \<Rightarrow> w
         | Awaiting_logout \<Rightarrow> w
         | Returned \<Rightarrow> w)
      else w)"
| "session_step w (Answer_logout i r) =
     (if i < length (calls w) then
        (case calls w ! i of
           Awaiting_logout \<Rightarrow> continue w i (logout_after (shared w) r)
         | Awaiting_me \<Rightarrow> w
         | Awaiting_refresh \<Rightarrow> w
         | Awaiting_retry \<Rightarrow> w
         | Returned \<Rightarrow> w)
      else w)"

text \<open>The store \<open>s\<close> with no call under way.\<close>

definition idle :: "AuthState \<Rightarrow> session_world" where
  "idle s = \<lparr>shared = s, calls = [], sent = []\<rparr>"

section \<open>Sample values\<close>

definition alice :: User where
  "alice =
     \<lparr>u_id = ''u1'', u_username = ''alice'', u_email = Some ''alice@example.org'',
      u_avatar_url = None, u_role = ''user'', u_oauth_provider = None,
      u_is_active = Some True, u_created_at = ''2025-01-01'', u_updated_at = None\<rparr>"

definition alice_settings :: UserSettings where
  "alice_settings =
     \<lparr>s_id = ''s1'', s_user_id = ''u1'', google_api_base = None,
      mineru_api_base = Some ''https://mineru.example.org'', image_caption_model = None,
      max_description_workers = Some 4, max_image_workers = None,
      has_google_api_key = True, has_mineru_token = False,
      s_created_at = ''2025-01-01'', s_updated_at = ''2025-01-02''\<rparr>"

definition alice_config :: EffectiveConfig where
  "alice_config =
     \<lparr>ec_google_api_key = \<lparr>is_set = True, secret_source = From_user\<rparr>,
      ec_google_api_base = \<lparr>entry_value = ''https://api.example.org'', entry_source = From_system\<rparr>,
      ec_mineru_token = \<lparr>is_set = False, secret_source = From_system\<rparr>,
      ec_mineru_api_base = \<lparr>entry_value = ''https://mineru.example.org'', entry_source = From_user\<rparr>,
      ec_image_caption_model = \<lparr>entry_value = ''caption-1'', entry_source = From_system\<rparr>,
      ec_max_description_workers = \<lparr>entry_value = 4, entry_source = From_user\<rparr>,
      ec_max_image_workers = \<lparr>entry_value = 8, entry_source = From_system\<rparr>\<rparr>"

text \<open>A store after a login, with the settings loaded.\<close>

definition signed_in :: AuthState where
  "signed_in =
     \<lparr>user = Some alice, accessToken = Some ''a1'', refreshToken = Some ''r1'',
      isAuthenticated = True, isLoading = False, error = None,
      settings = Some alice_settings, effectiveConfig = Some alice_config\<rparr>"



definition unauthorized :: api_error where
  "unauthorized = Api_error (Some 401) (Some ''Token has expired'')"

definition unreachable :: api_error where
  "unreachable = Api_error None None"

definition server_error :: api_error where
  "server_error = Api_error (Some 500) (Some ''Internal server error'')"

definition fresh_token :: RefreshResponse where
  "fresh_token = \<lparr>new_access_token = ''a2'', new_token_type = ''Bearer''\<rparr>"

section \<open>Failure of the refresh exchange\<close>

text \<open>
  C4: when the refresh exchange is made (a refresh token is held) and fails, the session
  is reset exactly once: user, accessToken, refreshToken, settings and effectiveConfig
  become absent and isAuthenticated becomes false; refreshAccessToken returns false. The
  same holds when the exchange is made from fetchCurrentUser after an unauthorized
  answer.
\<close>

theorem refresh_failure_clears_session_once:
  assumes rt: "\<not> falsy (refreshToken s)"
  shows "final (refreshAccessToken s (Inl e)) =
           s\<lparr>user := None, accessToken := None, refreshToken := None,
             isAuthenticated := False, settings := None, effectiveConfig := None\<rparr> \<and>
         result (refreshAccessToken s (Inl e)) = False \<and>
         events (refreshAccessToken s (Inl e)) =
           [Call (PostRefresh (the (refreshToken s))) (accessToken s) (isAuthenticated s),
            ClearSession] \<and>
         count_list (events (refreshAccessToken s (Inl e))) ClearSession = 1 \<and>
         (\<not> falsy (accessToken s) \<and> status e1 = Some 401 \<longrightarrow>
            final (fetchCurrentUser s (Inl e1) (Inl e) me2) =
              s\<lparr>user := None, accessToken := None, refreshToken := None,
                isAuthenticated := False, settings := None, effectiveConfig := None,
                isLoading := False\<rparr> \<and>
            count_list (events (fetchCurrentUser s (Inl e1) (Inl e) me2)) ClearSession = 1)"
proof -
  obtain t where t: "refreshToken s = Some t" "t \<noteq> []"
    using rt by (auto simp: falsy_def split: option.splits)
  have rb: "\<And>l. refresh_begin (s\<lparr>isLoading := l\<rparr>) = Some t" "refresh_begin s = Some t"
    using t by (simp_all add: refresh_begin_def falsy_def)
  show ?thesis
    using t
    by (simp add: fetchCurrentUser_def refreshAccessToken_def rb refresh_resume_def
        clearSession_def call_def Let_def)
qed

theorem refresh_failure_clears_session_once_witness:
  "\<not> falsy (refreshToken signed_in) \<and> \<not> falsy (accessToken signed_in) \<and>
   status unauthorized = Some 401 \<and>
   final (refreshAccessToken signed_in (Inl unauthorized)) = initial_state \<and>
   events (refreshAccessToken signed_in (Inl unauthorized)) =
     [Call (PostRefresh ''r1'') (Some ''a1'') True, ClearSession] \<and>
   final (fetchCurrentUser signed_in (Inl unauthorized) (Inl unauthorized) (Inr alice)) =
     initial_state \<and>
   count_list (events (fetchCurrentUser signed_in (Inl unauthorized) (Inl unauthorized)
                         (Inr alice))) ClearSession = 1"
  using refresh_failure_clears_session_once
    [of signed_in unauthorized unauthorized "Inr alice"]
  by (simp add: signed_in_def initial_state_def unauthorized_def falsy_def)

section \<open>Success of the refresh exchange\<close>

text \<open>
  C7: when the refresh exchange succeeds, the store differs from the one before in the
  accessToken field alone (refreshToken, user, isAuthenticated, settings and
  effectiveConfig are as before), and fetchCurrentUser, after an unauthorized answer,
  sends its request exactly once more, at a moment when the store holds the new access
  token.
\<close>

theorem refresh_success_replaces_access_token_only:
  assumes rt: "\<not> falsy (refreshToken s)"
  shows "refreshAccessToken s (Inr resp) =
           \<lparr>final = s\<lparr>accessToken := Some (new_access_token resp)\<rparr>,
            events =
              [Call (PostRefresh (the (refreshToken s))) (accessToken s) (isAuthenticated s)],
            result = True\<rparr> \<and>
         (\<not> falsy (accessToken s) \<and> status e = Some 401 \<longrightarrow>
            events (fetchCurrentUser s (Inl e) (Inr resp) me2) =
              [Call GetMe (accessToken s) (isAuthenticated s),
               Call (PostRefresh (the (refreshToken s))) (accessToken s) (isAuthenticated s),
               Call GetMe (Some (new_access_token resp)) (isAuthenticated s)])"
proof -
  obtain t where t: "refreshToken s = Some t" "t \<noteq> []"
    using rt by (auto simp: falsy_def split: option.splits)
  have rb: "\<And>l. refresh_begin (s\<lparr>isLoading := l\<rparr>) = Some t" "refresh_begin s = Some t"
    using t by (simp_all add: refresh_begin_def falsy_def)
  show ?thesis
    using t
    by (simp add: fetchCurrentUser_def refreshAccessToken_def rb refresh_resume_def
        call_def Let_def split: sum.split)
qed

theorem refresh_success_replaces_access_token_only_witness:
  "\<not> falsy (refreshToken signed_in) \<and> \<not> falsy (accessToken signed_in) \<and>
   status unauthorized = Some 401 \<and>
   final (refreshAccessToken signed_in (Inr fresh_token)) =
     signed_in\<lparr>accessToken := Some ''a2''\<rparr> \<and>
   events (fetchCurrentUser signed_in (Inl unauthorized) (Inr fresh_token) (Inr alice)) =
     [Call GetMe (Some ''a1'') True, Call (PostRefresh ''r1'') (Some ''a1'') True,
      Call GetMe (Some ''a2'') True]"
  using refresh_success_replaces_access_token_only
    [of signed_in fresh_token unauthorized "Inr alice"]
  by (simp add: signed_in_def unauthorized_def fresh_token_def falsy_def)

section \<open>Logout\<close>

text \<open>
  C9: logout resets the local session (user, both tokens, isAuthenticated, settings,
  effectiveConfig) whatever the remote logout call answers, an error included; the error
  is dropped: the promise resolves and the error field of the store is as before.
\<close>

theorem logout_clears_session_whatever_remote_answers:
  "final (logout s r) =
     s\<lparr>user := None, accessToken := None, refreshToken := None, isAuthenticated := False,
       settings := None, effectiveConfig := None\<rparr> \<and>
   result (logout s r) = Resolved \<and>
   error (final (logout s r)) = error s \<and>
   events (logout s r) = [Call PostLogout (accessToken s) (isAuthenticated s), ClearSession]"
  by (simp add: logout_def clearSession_def call_def split: sum.split)

section \<open>fetchCurrentUser without an access token\<close>

text \<open>
  C10: when accessToken is absent, fetchCurrentUser sends no request and leaves every
  field of the store as it is; a persisted isAuthenticated flag is neither confirmed nor
  cleared.
\<close>

theorem fetchCurrentUser_without_access_token_is_noop:
  "accessToken s = None \<Longrightarrow>
   fetchCurrentUser s me1 rf me2 = \<lparr>final = s, events = [], result = Resolved\<rparr>"
  by (simp add: fetchCurrentUser_def falsy_def)

theorem fetchCurrentUser_without_access_token_is_noop_witness:
  "accessToken (signed_in\<lparr>accessToken := None\<rparr>) = None \<and>
   final (fetchCurrentUser (signed_in\<lparr>accessToken := None\<rparr>) (Inr alice) (Inr fresh_token)
            (Inr alice)) = signed_in\<lparr>accessToken := None\<rparr> \<and>
   isAuthenticated (final (fetchCurrentUser (signed_in\<lparr>accessToken := None\<rparr>) (Inr alice)
            (Inr fresh_token) (Inr alice))) \<and>
   events (fetchCurrentUser (signed_in\<lparr>accessToken := None\<rparr>) (Inr alice) (Inr fresh_token)
            (Inr alice)) = []"
  using fetchCurrentUser_without_access_token_is_noop
    [of "signed_in\<lparr>accessToken := None\<rparr>" "Inr alice" "Inr fresh_token" "Inr alice"]
  by (simp add: signed_in_def)

section \<open>A second unauthorized answer after a refresh\<close>

text \<open>
  C1, as the code has it: when fetchCurrentUser gets an unauthorized answer, the refresh
  exchange succeeds and the repeated request fails again (with an unauthorized answer or
  any other error), the session is kept. The store ends with the refreshed access token
  and isLoading reset; user, refreshToken and isAuthenticated are as before. Three
  requests are sent and no more, the session is not reset, and the promise resolves.
\<close>

theorem second_unauthorized_after_refresh_keeps_session:
  assumes at: "\<not> falsy (accessToken s)" and e1: "status e1 = Some 401"
    and rt: "\<not> falsy (refreshToken s)"
  shows "fetchCurrentUser s (Inl e1) (Inr resp) (Inl e2) =
           \<lparr>final = s\<lparr>accessToken := Some (new_access_token resp), isLoading := False\<rparr>,
            events =
              [Call GetMe (accessToken s) (isAuthenticated s),
               Call (PostRefresh (the (refreshToken s))) (accessToken s) (isAuthenticated s),
               Call GetMe (Some (new_access_token resp)) (isAuthenticated s)],
            result = Resolved\<rparr>"
proof -
  obtain t where t: "refreshToken s = Some t" "t \<noteq> []"
    using rt by (auto simp: falsy_def split: option.splits)
  have rb: "refresh_begin (s\<lparr>isLoading := True\<rparr>) = Some t"
    using t by (simp add: refresh_begin_def falsy_def)
  show ?thesis
    using at e1 t
    by (simp add: fetchCurrentUser_def refreshAccessToken_def rb refresh_resume_def
        call_def Let_def)
qed

theorem second_unauthorized_after_refresh_keeps_session_witness:
  "\<not> falsy (accessToken signed_in) \<and> status unauthorized = Some 401 \<and>
   \<not> falsy (refreshToken signed_in) \<and>
   fetchCurrentUser signed_in (Inl unauthorized) (Inr fresh_token) (Inl unauthorized) =
     \<lparr>final = signed_in\<lparr>accessToken := Some ''a2''\<rparr>,
      events = [Call GetMe (Some ''a1'') True, Call (PostRefresh ''r1'') (Some ''a1'') True,
                Call GetMe (Some ''a2'') True],
      result = Resolved\<rparr>"
  using second_unauthorized_after_refresh_keeps_session
    [of signed_in unauthorized fresh_token unauthorized]
  by (simp add: signed_in_def unauthorized_def fresh_token_def falsy_def)

text \<open>
  C1 as stated fails: on a signed-in store, after unauthorized, refreshed, unauthorized,
  isAuthenticated is still true and both tokens are still held.
\<close>

theorem second_unauthorized_does_not_terminate_session:
  "isAuthenticated
     (final (fetchCurrentUser signed_in (Inl unauthorized) (Inr fresh_token)
               (Inl unauthorized))) \<and>
   accessToken
     (final (fetchCurrentUser signed_in (Inl unauthorized) (Inr fresh_token)
               (Inl unauthorized))) = Some ''a2'' \<and>
   refreshToken
     (final (fetchCurrentUser signed_in (Inl unauthorized) (Inr fresh_token)
               (Inl unauthorized))) = Some ''r1''"
  by (simp add: fetchCurrentUser_def refreshAccessToken_def refresh_begin_def refresh_resume_def
      signed_in_def unauthorized_def fresh_token_def falsy_def Let_def)

section \<open>An unauthorized answer when no refresh token is held\<close>

text \<open>
  C2, as the code has it: when fetchCurrentUser gets an unauthorized answer and no
  refresh token is held, refreshAccessToken returns false without sending a request and
  without touching the store; fetchCurrentUser resets isLoading, leaves every other field
  as it was (the session is not reset) and resolves: the failure does not reach the
  caller.
\<close>

theorem unauthorized_without_refresh_token_is_swallowed:
  assumes at: "\<not> falsy (accessToken s)" and e: "status e = Some 401"
    and rt: "refreshToken s = None"
  shows "fetchCurrentUser s (Inl e) rf me2 =
           \<lparr>final = s\<lparr>isLoading := False\<rparr>,
            events = [Call GetMe (accessToken s) (isAuthenticated s)],
            result = Resolved\<rparr> \<and>
         refreshAccessToken s rf = \<lparr>final = s, events = [], result = False\<rparr>"
  using assms
  by (simp add: fetchCurrentUser_def refreshAccessToken_def refresh_begin_def falsy_def
      call_def Let_def)

theorem unauthorized_without_refresh_token_is_swallowed_witness:
  "\<not> falsy (accessToken (signed_in\<lparr>refreshToken := None\<rparr>)) \<and>
   status unauthorized = Some 401 \<and> refreshToken (signed_in\<lparr>refreshToken := None\<rparr>) = None \<and>
   fetchCurrentUser (signed_in\<lparr>refreshToken := None\<rparr>) (Inl unauthorized) (Inr fresh_token)
       (Inr alice) =
     \<lparr>final = signed_in\<lparr>refreshToken := None\<rparr>, events = [Call GetMe (Some ''a1'') True],
      result = Resolved\<rparr>"
  using unauthorized_without_refresh_token_is_swallowed
    [of "signed_in\<lparr>refreshToken := None\<rparr>" unauthorized "Inr fresh_token" "Inr alice"]
  by (simp add: signed_in_def unauthorized_def falsy_def)

text \<open>
  C2 as stated fails: on a store that holds an access token and no refresh token, the
  call resolves after an unauthorized answer, the access token and the authenticated
  flag are kept, and the only event is the request itself.
\<close>

theorem unauthorized_without_refresh_token_keeps_session:
  "result (fetchCurrentUser (signed_in\<lparr>refreshToken := None\<rparr>) (Inl unauthorized)
             (Inr fresh_token) (Inr alice)) = Resolved \<and>
   accessToken (final (fetchCurrentUser (signed_in\<lparr>refreshToken := None\<rparr>)
             (Inl unauthorized) (Inr fresh_token) (Inr alice))) = Some ''a1'' \<and>
   isAuthenticated (final (fetchCurrentUser (signed_in\<lparr>refreshToken := None\<rparr>)
             (Inl unauthorized) (Inr fresh_token) (Inr alice))) \<and>
   user (final (fetchCurrentUser (signed_in\<lparr>refreshToken := None\<rparr>)
             (Inl unauthorized) (Inr fresh_token) (Inr alice))) = Some alice \<and>
   events (fetchCurrentUser (signed_in\<lparr>refreshToken := None\<rparr>) (Inl unauthorized)
             (Inr fresh_token) (Inr alice)) = [Call GetMe (Some ''a1'') True]"
  by (simp add: fetchCurrentUser_def refreshAccessToken_def refresh_begin_def
      signed_in_def unauthorized_def falsy_def Let_def call_def)

section \<open>Overlapping refresh exchanges\<close>

text \<open>One call alone, started and then resumed, is refreshAccessToken.\<close>

lemma single_caller_is_refreshAccessToken:
  "foldl turn_step (callers s 1) [Start 0, Deliver 0 r] =
     \<lparr>store = final (refreshAccessToken s r),
      tasks = [Finished (result (refreshAccessToken s r))],
      wire = events (refreshAccessToken s r)\<rparr>"
  by (simp add: callers_def refreshAccessToken_def Let_def split: option.split)

lemma started_prefix:
  assumes t: "refresh_begin s = Some t" and k: "k \<le> n"
  shows "foldl turn_step (callers s n) (map Start [0..<k]) =
           \<lparr>store = s, tasks = replicate k (Awaiting t) @ replicate (n - k) Not_started,
            wire = replicate k (call s (PostRefresh t))\<rparr>"
  using k
proof (induction k)
  case 0
  then show ?case by (simp add: callers_def)
next
  case (Suc k)
  then have lt: "k < n" by simp
  then have rest: "replicate (n - k) Not_started = Not_started # replicate (n - Suc k) Not_started"
    by (cases "n - k") (simp_all add: Suc_diff_Suc)
  have ih: "foldl turn_step (callers s n) (map Start [0..<k]) =
           \<lparr>store = s, tasks = replicate k (Awaiting t) @ replicate (n - k) Not_started,
            wire = replicate k (call s (PostRefresh t))\<rparr>"
    using Suc by simp
  show ?case
    using lt t
    by (simp add: ih rest nth_append list_update_append replicate_append_same
        replicate_app_Cons_same)
qed

text \<open>
  An answer finishes the call it is for, with true for an access token and false for an
  error, and leaves every other call as it is.
\<close>

lemma deliver_finishes_one_caller:
  "i < length (tasks w) \<Longrightarrow> tasks w ! i = Awaiting rt \<Longrightarrow>
   tasks (turn_step w (Deliver i r)) =
     (tasks w)[i := Finished (case r of Inl e \<Rightarrow> False | Inr resp \<Rightarrow> True)]"
  by (simp add: refresh_resume_def Let_def split: sum.split)

text \<open>
  C3, as the code has it: refreshAccessToken shares nothing between its calls. When \<open>n\<close>
  callers reach the refresh step on a store that holds a refresh token, each before any
  answer has arrived, \<open>n\<close> refresh requests are sent and all \<open>n\<close> exchanges are in flight
  at once, every caller waiting for the answer to its own request; the store is
  untouched until an answer arrives. In every world, the answer for a waiting caller
  \<open>i\<close> finishes caller \<open>i\<close> alone, with true if the answer is an access token and false
  if it is an error: each caller's result is decided by the answer to its own request.
\<close>

theorem overlapping_refresh_calls_each_send_a_request:
  assumes "\<not> falsy (refreshToken s)"
  shows "refresh_requests (foldl turn_step (callers s n) (map Start [0..<n])) = n \<and>
         in_flight (foldl turn_step (callers s n) (map Start [0..<n])) = n \<and>
         store (foldl turn_step (callers s n) (map Start [0..<n])) = s \<and>
         tasks (foldl turn_step (callers s n) (map Start [0..<n])) =
           replicate n (Awaiting (the (refreshToken s))) \<and>
         (i < length (tasks w) \<and> tasks w ! i = Awaiting rt \<longrightarrow>
            tasks (turn_step w (Deliver i r)) =
              (tasks w)[i := Finished (case r of Inl e \<Rightarrow> False | Inr resp \<Rightarrow> True)])"
proof -
  obtain t where rt: "refreshToken s = Some t" and ne: "t \<noteq> []"
    using assms by (auto simp: falsy_def split: option.splits)
  have t: "refresh_begin s = Some t"
    using rt ne by (simp add: refresh_begin_def falsy_def)
  have starts:
    "refresh_requests (foldl turn_step (callers s n) (map Start [0..<n])) = n \<and>
     in_flight (foldl turn_step (callers s n) (map Start [0..<n])) = n \<and>
     store (foldl turn_step (callers s n) (map Start [0..<n])) = s \<and>
     tasks (foldl turn_step (callers s n) (map Start [0..<n])) =
       replicate n (Awaiting (the (refreshToken s)))"
    by (simp add: started_prefix[OF t order_refl] refresh_requests_def in_flight_def call_def rt)
  have answer:
    "i < length (tasks w) \<and> tasks w ! i = Awaiting rt \<longrightarrow>
       tasks (turn_step w (Deliver i r)) =
         (tasks w)[i := Finished (case r of Inl e \<Rightarrow> False | Inr resp \<Rightarrow> True)]"
    using deliver_finishes_one_caller by blast
  from starts answer show ?thesis by blast
qed

theorem overlapping_refresh_calls_each_send_a_request_witness:
  "\<not> falsy (refreshToken signed_in) \<and>
   refresh_requests (foldl turn_step (callers signed_in 3) (map Start [0..<3])) = 3 \<and>
   in_flight (foldl turn_step (callers signed_in 3) (map Start [0..<3])) = 3 \<and>
   tasks (foldl turn_step (callers signed_in 3) (map Start [0..<3])) =
     [Awaiting ''r1'', Awaiting ''r1'', Awaiting ''r1''] \<and>
   tasks (turn_step (foldl turn_step (callers signed_in 3) (map Start [0..<3]))
            (Deliver 1 (Inl unauthorized))) =
     [Awaiting ''r1'', Finished False, Awaiting ''r1'']"
proof -
  define W where "W = foldl turn_step (callers signed_in 3) (map Start [0..<3])"
  have h: "\<not> falsy (refreshToken signed_in)" by (simp add: signed_in_def falsy_def)
  have inst:
    "refresh_requests W = 3 \<and> in_flight W = 3 \<and> store W = signed_in \<and>
     tasks W = replicate 3 (Awaiting (the (refreshToken signed_in))) \<and>
     (1 < length (tasks W) \<and> tasks W ! 1 = Awaiting ''r1'' \<longrightarrow>
        tasks (turn_step W (Deliver 1 (Inl unauthorized))) =
          (tasks W)[1 := Finished (case (Inl unauthorized :: RefreshResponse response) of
                                     Inl e \<Rightarrow> False | Inr resp \<Rightarrow> True)])"
    using overlapping_refresh_calls_each_send_a_request
      [OF h, of 3 1 W "''r1''" "Inl unauthorized"]
    unfolding W_def[symmetric] .
  have tk: "tasks W = [Awaiting ''r1'', Awaiting ''r1'', Awaiting ''r1'']"
    using inst by (simp add: signed_in_def numeral_3_eq_3)
  have dl: "tasks (turn_step W (Deliver 1 (Inl unauthorized))) =
              [Awaiting ''r1'', Finished False, Awaiting ''r1'']"
    using inst unfolding tk by simp
  show ?thesis
    unfolding W_def[symmetric] using h inst tk dl by simp
qed

text \<open>
  C3 as stated fails: two callers on a signed-in store send two refresh requests, both in
  flight together, and when the remote authority accepts the first and rejects the
  second, the first caller gets true and the second false.
\<close>

theorem two_refresh_exchanges_in_flight:
  "refresh_requests (foldl turn_step (callers signed_in 2) [Start 0, Start 1]) = 2 \<and>
   in_flight (foldl turn_step (callers signed_in 2) [Start 0, Start 1]) = 2 \<and>
   tasks (foldl turn_step (callers signed_in 2)
            [Start 0, Start 1, Deliver 0 (Inr fresh_token), Deliver 1 (Inl unauthorized)]) =
     [Finished True, Finished False]"
  by (simp add: callers_def signed_in_def refresh_requests_def in_flight_def refresh_begin_def
      refresh_resume_def falsy_def call_def clearSession_def Let_def numeral_2_eq_2)

section \<open>The authenticated flag and the tokens\<close>









text \<open>
  A call whose pieces run with nothing in between is the action that \<open>perform\<close> runs.
\<close>

lemma fetchCurrentUser_alone:
  "foldl session_step (idle s)
     [Call_fetchCurrentUser, Answer_me 0 me1, Answer_refresh 0 rf, Answer_me 0 me2] =
   \<lparr>shared = final (fetchCurrentUser s me1 rf me2), calls = [Returned],
    sent = events (fetchCurrentUser s me1 rf me2)\<rparr>"
proof (cases "falsy (accessToken s)")
  case True
  then show ?thesis
    by (simp add: idle_def enter_def fetchCurrentUser_def fetchCurrentUser_begin_def)
next
  case False
  then show ?thesis
    by (cases me1; cases rf; cases me2; cases "refresh_begin (s\<lparr>isLoading := True\<rparr>)")
      (simp_all add: idle_def enter_def continue_def fetchCurrentUser_def
        fetchCurrentUser_begin_def fetchCurrentUser_after_me_def
        fetchCurrentUser_after_refresh_def fetchCurrentUser_after_retry_def
        refreshAccessToken_def refresh_resume_def Let_def)
qed

lemma logout_alone:
  "foldl session_step (idle s) [Call_logout, Answer_logout 0 r] =
   \<lparr>shared = final (logout s r), calls = [Returned], sent = events (logout s r)\<rparr>"
  by (simp add: idle_def enter_def continue_def logout_def logout_begin_def logout_after_def
      Let_def split: sum.split)

text \<open>
  login does not await its settings fetch. Whenever the answer to that fetch arrives, it
  writes what a fetchSettings at that moment writes, so a run in which it arrives late
  is the run of login with no settings answer followed, later, by a FetchSettings.
\<close>

lemma login_settings_answer_later:
  "final (login s email password rememberMe (Inr resp) rs) =
     perform (final (login s email password rememberMe (Inr resp) (Inl e))) (FetchSettings rs)"
  by (simp add: login_def fetchSettings_def fetchSettings_resume_def Let_def split: sum.split)




section \<open>Failing settings operations\<close>

text \<open>
  C6, as the code has it: a failing fetchSettings, updateSettings or resetSetting leaves
  settings and effectiveConfig as they were. updateSettings and resetSetting surface a
  message: they write it to the error field and reject with it; it is the error text of
  the answer, or a fixed fallback when the answer has none. fetchSettings surfaces
  nothing to the user: it writes to the console, leaves the whole store unchanged and
  resolves.
\<close>

theorem settings_failure_leaves_settings_untouched:
  "final (fetchSettings s (Inl e)) = s \<and>
   result (fetchSettings s (Inl e)) = Resolved \<and>
   final (updateSettings s data (Inl e)) =
     s\<lparr>error := Some (message_or e ''Failed to update settings'')\<rparr> \<and>
   result (updateSettings s data (Inl e)) =
     Rejected (message_or e ''Failed to update settings'') \<and>
   final (resetSetting s key (Inl e)) =
     s\<lparr>error := Some (message_or e ''Failed to reset setting'')\<rparr> \<and>
   result (resetSetting s key (Inl e)) = Rejected (message_or e ''Failed to reset setting'') \<and>
   settings (final (updateSettings s data (Inl e))) = settings s \<and>
   effectiveConfig (final (updateSettings s data (Inl e))) = effectiveConfig s \<and>
   settings (final (resetSetting s key (Inl e))) = settings s \<and>
   effectiveConfig (final (resetSetting s key (Inl e))) = effectiveConfig s \<and>
   message_or e fallback =
     (if data_error e = None \<or> data_error e = Some [] then fallback else the (data_error e))"
  by (auto simp add: fetchSettings_def fetchSettings_resume_def updateSettings_def
      resetSetting_def Let_def message_or_def split: option.split)

text \<open>
  C6 as stated fails for fetch: after a failing fetchSettings on a signed-in store the
  error field is still empty, the promise has resolved and the store is the same.
\<close>

theorem fetchSettings_failure_surfaces_nothing:
  "error (final (fetchSettings signed_in (Inl server_error))) = None \<and>
   result (fetchSettings signed_in (Inl server_error)) = Resolved \<and>
   final (fetchSettings signed_in (Inl server_error)) = signed_in"
  by (simp add: fetchSettings_def fetchSettings_resume_def signed_in_def)

section \<open>When the configuration is fetched\<close>




end
